theory Spec2Isabelle
  imports Main "HOL-Library.Multiset"
begin

section \<open>Values and exceptions\<close>

text \<open>
  The events handled by \<^verbatim>\<open>src/core/github.py\<close> are the values produced by
  \<^verbatim>\<open>response.json()\<close>: \<^verbatim>\<open>None\<close>, booleans, integers, strings, lists and
  dictionaries with string keys. A dictionary is an association list in insertion order, read
  with \<open>map_of\<close>; a \<open>char\<close> stands for one character of a Python \<^verbatim>\<open>str\<close>.
  JSON numbers with a fraction or an exponent (Python floats) are outside the model.
\<close>

datatype json =
    JNull
  | JBool bool
  | JInt int
  | JStr string
  | JList "json list"
  | JObj "(string \<times> json) list"

text \<open>
  Exceptions are values. \<open>RequestException\<close>, \<open>HTTPError\<close> and \<open>JSONDecodeError\<close> are
  the exceptions of the \<^verbatim>\<open>requests\<close> library; the last two are subclasses of the first.
\<close>

datatype exn =
    AttributeError
  | KeyError
  | TypeError
  | ValueError
  | IndexError
  | OverflowError
  | OSError
  | RequestException
  | HTTPError
  | JSONDecodeError

fun is_RequestException :: "exn \<Rightarrow> bool" where
  "is_RequestException RequestException = True"
| "is_RequestException HTTPError = True"
| "is_RequestException JSONDecodeError = True"
| "is_RequestException _ = False"

text \<open>Sequencing of two computations that may raise, and \<^verbatim>\<open>try: ... except: ...\<close>.\<close>

definition and_then :: "exn + 'a \<Rightarrow> ('a \<Rightarrow> exn + 'b) \<Rightarrow> exn + 'b" where
  "and_then m f = (case m of Inl e \<Rightarrow> Inl e | Inr x \<Rightarrow> f x)"

definition try_except :: "exn + 'a \<Rightarrow> (exn \<Rightarrow> exn + 'a) \<Rightarrow> exn + 'a" where
  "try_except m handler = (case m of Inl e \<Rightarrow> handler e | Inr x \<Rightarrow> Inr x)"

fun map_result :: "('a \<Rightarrow> exn + 'b) \<Rightarrow> 'a list \<Rightarrow> exn + 'b list" where
  "map_result f [] = Inr []"
| "map_result f (x # xs) =
     and_then (f x) (\<lambda>y. and_then (map_result f xs) (\<lambda>ys. Inr (y # ys)))"

section \<open>The Python operations the source uses\<close>

text \<open>\<^verbatim>\<open>d.get(k, default)\<close>: only a dictionary has the method.\<close>

fun dict_get :: "json \<Rightarrow> string \<Rightarrow> json \<Rightarrow> exn + json" where
  "dict_get (JObj kvs) k dflt = Inr (case map_of kvs k of None \<Rightarrow> dflt | Some v \<Rightarrow> v)"
| "dict_get _ k dflt = Inl AttributeError"

text \<open>\<^verbatim>\<open>x["k"]\<close> with a string key.\<close>

fun subscript :: "json \<Rightarrow> string \<Rightarrow> exn + json" where
  "subscript (JObj kvs) k = (case map_of kvs k of None \<Rightarrow> Inl KeyError | Some v \<Rightarrow> Inr v)"
| "subscript _ k = Inl TypeError"

text \<open>\<^verbatim>\<open>details["k"]\<close> on the details dictionary.\<close>

definition item :: "(string \<times> json) list \<Rightarrow> string \<Rightarrow> exn + json" where
  "item d k = (case map_of d k of None \<Rightarrow> Inl KeyError | Some v \<Rightarrow> Inr v)"

text \<open>\<^verbatim>\<open>len(x)\<close>.\<close>

fun py_len :: "json \<Rightarrow> exn + int" where
  "py_len (JStr s) = Inr (int (length s))"
| "py_len (JList xs) = Inr (int (length xs))"
| "py_len (JObj kvs) = Inr (int (length (remdups (map fst kvs))))"
| "py_len _ = Inl TypeError"

text \<open>
  \<^verbatim>\<open>x[:n]\<close>: lists and strings are sliced; a dictionary raises (\<^verbatim>\<open>TypeError\<close> before
  Python 3.12, \<^verbatim>\<open>KeyError\<close> from 3.12 on), everything else is not subscriptable.
\<close>

fun slice_to :: "nat \<Rightarrow> json \<Rightarrow> exn + json" where
  "slice_to n (JStr s) = Inr (JStr (take n s))"
| "slice_to n (JList xs) = Inr (JList (take n xs))"
| "slice_to n (JObj kvs) = Inl KeyError"
| "slice_to n _ = Inl TypeError"

text \<open>Iteration: the elements of a list, the characters of a string, the keys of a dictionary.\<close>

fun py_iter :: "json \<Rightarrow> exn + json list" where
  "py_iter (JList xs) = Inr xs"
| "py_iter (JStr s) = Inr (map (\<lambda>c. JStr [c]) s)"
| "py_iter (JObj kvs) = Inr (map JStr (remdups (map fst kvs)))"
| "py_iter _ = Inl TypeError"

text \<open>\<^verbatim>\<open>x + "..."\<close>: only a string can be extended by a string.\<close>

fun add_str :: "json \<Rightarrow> string \<Rightarrow> exn + json" where
  "add_str (JStr s) t = Inr (JStr (s @ t))"
| "add_str _ t = Inl TypeError"

text \<open>Truthiness.\<close>

fun py_bool :: "json \<Rightarrow> bool" where
  "py_bool JNull = False"
| "py_bool (JBool b) = b"
| "py_bool (JInt i) = (i \<noteq> 0)"
| "py_bool (JStr s) = (s \<noteq> [])"
| "py_bool (JList xs) = (xs \<noteq> [])"
| "py_bool (JObj kvs) = (kvs \<noteq> [])"

text \<open>\<^verbatim>\<open>x > 1\<close>: numbers compare (a boolean is the integer 0 or 1), anything else raises.\<close>

fun gt_one :: "json \<Rightarrow> exn + bool" where
  "gt_one (JInt i) = Inr (1 < i)"
| "gt_one (JBool b) = Inr False"
| "gt_one _ = Inl TypeError"

text \<open>\<^verbatim>\<open>x[0]\<close>.\<close>

fun index0 :: "json \<Rightarrow> exn + json" where
  "index0 (JList []) = Inl IndexError"
| "index0 (JList (x # xs)) = Inr x"
| "index0 (JStr []) = Inl IndexError"
| "index0 (JStr (c # cs)) = Inr (JStr [c])"
| "index0 (JObj kvs) = Inl KeyError"
| "index0 _ = Inl TypeError"

subsection \<open>Strings\<close>

text \<open>
  \<^verbatim>\<open>s.replace(old, new)\<close> for a non-empty \<open>old\<close> (both call sites pass a literal):
  occurrences are replaced from the left, without overlap.
\<close>

function replace :: "string \<Rightarrow> string \<Rightarrow> string \<Rightarrow> string" where
  "replace old new [] = []"
| "replace old new (c # cs) =
     (if old \<noteq> [] \<and> take (length old) (c # cs) = old
      then new @ replace old new (drop (length old) (c # cs))
      else c # replace old new cs)"
  by pat_completeness auto
termination
  by (relation "measure (\<lambda>(old, new, s). length s)") auto

fun str_replace :: "json \<Rightarrow> string \<Rightarrow> string \<Rightarrow> exn + string" where
  "str_replace (JStr s) old new = Inr (replace old new s)"
| "str_replace _ old new = Inl AttributeError"

text \<open>\<^verbatim>\<open>s.split("\n")[0]\<close>: the text before the first line feed.\<close>

definition first_line :: "string \<Rightarrow> string" where
  "first_line s = takeWhile (\<lambda>c. c \<noteq> CHR 0x0A) s"

fun split_first :: "json \<Rightarrow> exn + json" where
  "split_first (JStr s) = Inr (JStr (first_line s))"
| "split_first _ = Inl AttributeError"

text \<open>\<^verbatim>\<open>s.startswith(p)\<close>.\<close>

fun startswith :: "json \<Rightarrow> string \<Rightarrow> exn + bool" where
  "startswith (JStr s) p = Inr (take (length p) s = p)"
| "startswith _ p = Inl AttributeError"

text \<open>
  Case mapping. A \<open>char\<close> stands for a code point below 256, and the mapping is the one
  of Python on that range: \<^verbatim>\<open>str.lower\<close> moves \<^verbatim>\<open>A\<close> to \<^verbatim>\<open>Z\<close> and the
  letters from U+00C0 to U+00DE (U+00D7 is the multiplication sign) up by 32; the title case
  moves the small letters down by 32 and turns U+00DF into \<^verbatim>\<open>Ss\<close>. The title case of
  U+00B5 and of U+00FF lies above the range, and these two characters are left as they are.
\<close>

definition lower_char :: "char \<Rightarrow> char" where
  "lower_char c =
     (let n = (of_char c :: nat)
      in if 65 \<le> n \<and> n \<le> 90 then char_of (n + 32)
         else if n = 215 then c
         else if 192 \<le> n \<and> n \<le> 222 then char_of (n + 32)
         else c)"

definition title_char :: "char \<Rightarrow> string" where
  "title_char c =
     (let n = (of_char c :: nat)
      in if 97 \<le> n \<and> n \<le> 122 then [char_of (n - 32)]
         else if n = 223 then ''Ss''
         else if n = 247 then [c]
         else if 224 \<le> n \<and> n \<le> 254 then [char_of (n - 32)]
         else [c])"

text \<open>
  \<^verbatim>\<open>s.capitalize()\<close>: the first character in title case, the others in lower case.
\<close>

fun capitalize :: "json \<Rightarrow> exn + string" where
  "capitalize (JStr []) = Inr []"
| "capitalize (JStr (c # cs)) = Inr (title_char c @ map lower_char cs)"
| "capitalize _ = Inl AttributeError"

subsection \<open>Formatting: \<^verbatim>\<open>str\<close> and \<^verbatim>\<open>repr\<close>\<close>

definition digit_char :: "nat \<Rightarrow> char" where
  "digit_char d = ''0123456789'' ! d"

fun str_nat :: "nat \<Rightarrow> string" where
  "str_nat n = (if n < 10 then [digit_char n] else str_nat (n div 10) @ [digit_char (n mod 10)])"

declare str_nat.simps [simp del]

definition str_int :: "int \<Rightarrow> string" where
  "str_int i = (if i < 0 then CHR ''-'' # str_nat (nat (- i)) else str_nat (nat i))"

definition hex_char :: "nat \<Rightarrow> char" where
  "hex_char d = ''0123456789abcdef'' ! d"

text \<open>
  \<^verbatim>\<open>repr\<close> of a string: single quotes, unless the string has a single quote and no double
  quote; the quote and the backslash are escaped, control and non-printable characters are
  written as escapes.
\<close>

definition repr_char :: "char \<Rightarrow> char \<Rightarrow> string" where
  "repr_char q c =
     (let n = (of_char c :: nat) in
      if c = q \<or> c = CHR 0x5C then [CHR 0x5C, c]
      else if c = CHR 0x09 then [CHR 0x5C, CHR ''t'']
      else if c = CHR 0x0A then [CHR 0x5C, CHR ''n'']
      else if c = CHR 0x0D then [CHR 0x5C, CHR ''r'']
      else if n < 32 \<or> (127 \<le> n \<and> n \<le> 160) \<or> n = 173
        then [CHR 0x5C, CHR ''x'', hex_char (n div 16), hex_char (n mod 16)]
      else [c])"

definition repr_str :: "string \<Rightarrow> string" where
  "repr_str s =
     (let q = (if CHR 0x27 \<in> set s \<and> CHR 0x22 \<notin> set s then CHR 0x22 else CHR 0x27)
      in q # concat (map (repr_char q) s) @ [q])"

fun join :: "string \<Rightarrow> string list \<Rightarrow> string" where
  "join sep [] = []"
| "join sep [x] = x"
| "join sep (x # y # ys) = x @ sep @ join sep (y # ys)"

fun py_repr :: "json \<Rightarrow> string" where
  "py_repr JNull = ''None''"
| "py_repr (JBool b) = (if b then ''True'' else ''False'')"
| "py_repr (JInt i) = str_int i"
| "py_repr (JStr s) = repr_str s"
| "py_repr (JList xs) = ''['' @ join '', '' (map py_repr xs) @ '']''"
| "py_repr (JObj kvs) =
     ''{'' @ join '', '' (map (\<lambda>kv. repr_str (fst kv) @ '': '' @ py_repr (snd kv)) kvs) @ ''}''"

text \<open>\<^verbatim>\<open>f"{x}"\<close>: a string is inserted as it is, any other value by its \<^verbatim>\<open>repr\<close>.\<close>

fun py_str :: "json \<Rightarrow> string" where
  "py_str (JStr s) = s"
| "py_str v = py_repr v"

section \<open>The event normalizer\<close>

subsection \<open>\<^verbatim>\<open>_simplify_event_details\<close>\<close>

text \<open>
  The details dictionary is an association list in the order of the dictionary literal.
  Each branch of the \<^verbatim>\<open>if\<close>/\<^verbatim>\<open>elif\<close> chain is a definition of its own; the
  arguments are the values bound before the chain (\<open>repo\<close>, \<open>repo_url\<close>, \<open>payload\<close>).
\<close>

type_synonym details = "(string \<times> json) list"

definition commit_message :: "json \<Rightarrow> exn + json" where
  "commit_message commit =
     and_then (dict_get commit ''message'' (JStr [])) split_first"

definition simplify_push :: "json \<Rightarrow> string \<Rightarrow> json \<Rightarrow> exn + details" where
  "simplify_push repo repo_url payload =
     and_then (dict_get payload ''ref'' (JStr ''unknown'')) (\<lambda>ref.
     and_then (str_replace ref ''refs/heads/'' []) (\<lambda>branch.
     and_then (dict_get payload ''commits'' (JList [])) (\<lambda>commits.
     and_then (py_len commits) (\<lambda>commit_count.
     and_then (slice_to 3 commits) (\<lambda>first3.
     and_then (py_iter first3) (\<lambda>cs.
     and_then (map_result commit_message cs) (\<lambda>commit_messages.
     and_then (dict_get payload ''before'' (JStr [])) (\<lambda>before_sha.
     and_then (dict_get payload ''head'' (JStr [])) (\<lambda>head_sha.
       Inr [(''repository'', repo),
            (''repository_url'', JStr repo_url),
            (''ref'', ref),
            (''commit_count'', JInt commit_count),
            (''commit_messages'', JList commit_messages),
            (''compare_url'',
               JStr (repo_url @ ''/compare/'' @ py_str before_sha @ ''...'' @ py_str head_sha))])))))))))"

definition simplify_pull_request :: "json \<Rightarrow> string \<Rightarrow> json \<Rightarrow> exn + details" where
  "simplify_pull_request repo repo_url payload =
     and_then (dict_get payload ''pull_request'' (JObj [])) (\<lambda>pr.
     and_then (dict_get payload ''action'' (JStr ''unknown'')) (\<lambda>action.
     and_then (dict_get pr ''title'' (JStr ''unknown'')) (\<lambda>title.
     and_then (dict_get pr ''number'' (JStr ''unknown'')) (\<lambda>number.
     and_then (dict_get pr ''state'' (JStr ''unknown'')) (\<lambda>state.
     and_then (dict_get pr ''html_url'' JNull) (\<lambda>url.
       Inr [(''action'', action),
            (''title'', title),
            (''number'', number),
            (''repository'', repo),
            (''repository_url'', JStr repo_url),
            (''state'', state),
            (''url'', url)]))))))"

definition simplify_issues :: "json \<Rightarrow> string \<Rightarrow> json \<Rightarrow> exn + details" where
  "simplify_issues repo repo_url payload =
     and_then (dict_get payload ''issue'' (JObj [])) (\<lambda>issue.
     and_then (dict_get payload ''action'' (JStr ''unknown'')) (\<lambda>action.
     and_then (dict_get issue ''title'' (JStr ''unknown'')) (\<lambda>title.
     and_then (dict_get issue ''number'' (JStr ''unknown'')) (\<lambda>number.
     and_then (dict_get issue ''html_url'' JNull) (\<lambda>url.
       Inr [(''action'', action),
            (''title'', title),
            (''number'', number),
            (''repository'', repo),
            (''repository_url'', JStr repo_url),
            (''url'', url)])))))"

definition simplify_issue_comment :: "json \<Rightarrow> string \<Rightarrow> json \<Rightarrow> exn + details" where
  "simplify_issue_comment repo repo_url payload =
     and_then (dict_get payload ''action'' (JStr ''unknown'')) (\<lambda>action.
     and_then (dict_get payload ''issue'' (JObj [])) (\<lambda>issue.
     and_then (dict_get issue ''number'' (JStr ''unknown'')) (\<lambda>issue_number.
     and_then (dict_get payload ''comment'' (JObj [])) (\<lambda>comment.
     and_then (dict_get comment ''body'' (JStr [])) (\<lambda>body.
     and_then (slice_to 100 body) (\<lambda>body100.
     and_then (add_str body100 ''...'') (\<lambda>comment_fragment.
     and_then (dict_get comment ''html_url'' JNull) (\<lambda>url.
     and_then (dict_get issue ''html_url'' JNull) (\<lambda>issue_url.
       Inr [(''action'', action),
            (''issue_number'', issue_number),
            (''repository'', repo),
            (''repository_url'', JStr repo_url),
            (''comment_fragment'', comment_fragment),
            (''url'', url),
            (''issue_url'', issue_url)])))))))))"

definition simplify_create :: "json \<Rightarrow> string \<Rightarrow> json \<Rightarrow> exn + details" where
  "simplify_create repo repo_url payload =
     and_then (dict_get payload ''ref_type'' (JStr ''unknown'')) (\<lambda>ref_type.
     and_then (dict_get payload ''ref'' (JStr ''unknown'')) (\<lambda>ref.
       Inr [(''ref_type'', ref_type),
            (''ref'', ref),
            (''repository'', repo),
            (''repository_url'', JStr repo_url),
            (''url'',
               JStr (if ref_type = JStr ''branch'' then repo_url @ ''/tree/'' @ py_str ref
                     else if ref_type = JStr ''tag''
                       then repo_url @ ''/releases/tag/'' @ py_str ref
                     else repo_url))]))"

definition simplify_delete :: "json \<Rightarrow> string \<Rightarrow> json \<Rightarrow> exn + details" where
  "simplify_delete repo repo_url payload =
     and_then (dict_get payload ''ref_type'' (JStr ''unknown'')) (\<lambda>ref_type.
     and_then (dict_get payload ''ref'' (JStr ''unknown'')) (\<lambda>ref.
       Inr [(''ref_type'', ref_type),
            (''ref'', ref),
            (''repository'', repo),
            (''repository_url'', JStr repo_url)]))"

definition simplify_watch :: "json \<Rightarrow> string \<Rightarrow> json \<Rightarrow> exn + details" where
  "simplify_watch repo repo_url payload =
     and_then (dict_get payload ''action'' (JStr ''unknown'')) (\<lambda>action.
       Inr [(''action'', action),
            (''repository'', repo),
            (''repository_url'', JStr repo_url)])"

text \<open>The body of the \<^verbatim>\<open>try\<close> block (lines 76 to 169 of the source).\<close>

definition simplify_try :: "json \<Rightarrow> json \<Rightarrow> exn + details" where
  "simplify_try event_type event =
     and_then (dict_get event ''repo'' (JObj [])) (\<lambda>repo_obj.
     and_then (dict_get repo_obj ''name'' (JStr ''unknown'')) (\<lambda>repo.
     and_then (dict_get event ''payload'' (JObj [])) (\<lambda>payload.
       let base_url = ''https://github.com'';
           repo_url = base_url @ ''/'' @ py_str repo
       in if event_type = JStr ''PushEvent'' then simplify_push repo repo_url payload
          else if event_type = JStr ''PullRequestEvent''
            then simplify_pull_request repo repo_url payload
          else if event_type = JStr ''IssuesEvent'' then simplify_issues repo repo_url payload
          else if event_type = JStr ''IssueCommentEvent''
            then simplify_issue_comment repo repo_url payload
          else if event_type = JStr ''CreateEvent'' then simplify_create repo repo_url payload
          else if event_type = JStr ''DeleteEvent'' then simplify_delete repo repo_url payload
          else if event_type = JStr ''WatchEvent'' then simplify_watch repo repo_url payload
          else Inr [(''event_type'', event_type),
                    (''repository'', repo),
                    (''repository_url'', JStr repo_url)])))"

definition error_details :: details where
  "error_details = [(''error'', JStr ''Failed to process event details'')]"

text \<open>The whole function: \<^verbatim>\<open>except Exception\<close> replaces the result by the fallback.\<close>

definition simplify_event_details :: "json \<Rightarrow> json \<Rightarrow> exn + details" where
  "simplify_event_details event_type event =
     try_except (simplify_try event_type event) (\<lambda>e. Inr error_details)"

subsection \<open>\<^verbatim>\<open>_get_human_readable_message\<close>\<close>

text \<open>One definition for each branch of the chain; each reads the details only.\<close>

definition message_push :: "details \<Rightarrow> exn + string" where
  "message_push details =
     and_then (item details ''commit_count'') (\<lambda>commit_count.
     and_then (item details ''repository'') (\<lambda>repo.
     and_then (item details ''ref'') (\<lambda>ref.
     and_then (str_replace ref ''refs/heads/'' []) (\<lambda>branch.
     and_then (item details ''commit_messages'') (\<lambda>commit_messages.
     and_then (if py_bool commit_messages
               then and_then (index0 commit_messages) (\<lambda>m. Inr ('': '' @ py_str m))
               else Inr []) (\<lambda>commit_msg.
     and_then (gt_one commit_count) (\<lambda>plural.
       Inr (''Pushed '' @ py_str commit_count @ '' commit'' @ (if plural then ''s'' else [])
            @ '' to '' @ py_str repo @ ''/'' @ branch @ commit_msg))))))))"

definition message_pull_request :: "details \<Rightarrow> exn + string" where
  "message_pull_request details =
     and_then (item details ''action'') (\<lambda>action.
     and_then (item details ''title'') (\<lambda>title.
     and_then (item details ''number'') (\<lambda>number.
     and_then (item details ''repository'') (\<lambda>repo.
     and_then (capitalize action) (\<lambda>cap.
       Inr (cap @ '' PR #'' @ py_str number @ '' in '' @ py_str repo @ '': ''
            @ py_str title))))))"

definition message_issues :: "details \<Rightarrow> exn + string" where
  "message_issues details =
     and_then (item details ''action'') (\<lambda>action.
     and_then (item details ''title'') (\<lambda>title.
     and_then (item details ''number'') (\<lambda>number.
     and_then (item details ''repository'') (\<lambda>repo.
     and_then (capitalize action) (\<lambda>cap.
       Inr (cap @ '' issue #'' @ py_str number @ '' in '' @ py_str repo @ '': ''
            @ py_str title))))))"

definition message_issue_comment :: "details \<Rightarrow> exn + string" where
  "message_issue_comment details =
     and_then (item details ''repository'') (\<lambda>repo.
     and_then (item details ''issue_number'') (\<lambda>number.
     and_then (item details ''comment_fragment'') (\<lambda>comment.
       Inr (''Commented on issue #'' @ py_str number @ '' in '' @ py_str repo @ '': ''
            @ py_str comment))))"

definition message_create :: "details \<Rightarrow> exn + string" where
  "message_create details =
     and_then (item details ''ref_type'') (\<lambda>ref_type.
     and_then (item details ''ref'') (\<lambda>ref.
     and_then (item details ''repository'') (\<lambda>repo.
       Inr (''Created '' @ py_str ref_type @ '' '' @ py_str ref @ '' in '' @ py_str repo))))"

definition message_delete :: "details \<Rightarrow> exn + string" where
  "message_delete details =
     and_then (item details ''ref_type'') (\<lambda>ref_type.
     and_then (item details ''ref'') (\<lambda>ref.
     and_then (item details ''repository'') (\<lambda>repo.
       Inr (''Deleted '' @ py_str ref_type @ '' '' @ py_str ref @ '' in '' @ py_str repo))))"

definition message_watch :: "details \<Rightarrow> exn + string" where
  "message_watch details =
     and_then (item details ''repository'') (\<lambda>repo.
       Inr (''Starred repository '' @ py_str repo))"

text \<open>The body of the \<^verbatim>\<open>try\<close> block (lines 179 to 225 of the source).\<close>

definition message_try :: "json \<Rightarrow> details \<Rightarrow> exn + string" where
  "message_try event_type details =
     (if event_type = JStr ''PushEvent'' then message_push details
      else if event_type = JStr ''PullRequestEvent'' then message_pull_request details
      else if event_type = JStr ''IssuesEvent'' then message_issues details
      else if event_type = JStr ''IssueCommentEvent'' then message_issue_comment details
      else if event_type = JStr ''CreateEvent'' then message_create details
      else if event_type = JStr ''DeleteEvent'' then message_delete details
      else if event_type = JStr ''WatchEvent'' then message_watch details
      else Inr (''Performed '' @ py_str event_type @ '' on ''
                @ py_str (case map_of details ''repository'' of
                            None \<Rightarrow> JStr ''unknown repository'' | Some v \<Rightarrow> v)))"

definition get_human_readable_message :: "json \<Rightarrow> details \<Rightarrow> exn + string" where
  "get_human_readable_message event_type details =
     try_except (message_try event_type details)
       (\<lambda>e. Inr (''Performed '' @ py_str event_type))"

text \<open>
  The keys a branch reads with \<^verbatim>\<open>details[...]\<close>, which raises when the key is absent.
  The last branch reads \<^verbatim>\<open>repository\<close> with \<^verbatim>\<open>details.get\<close> and a default, so it
  needs no key.
\<close>

definition required_keys :: "json \<Rightarrow> string list" where
  "required_keys event_type =
     (if event_type = JStr ''PushEvent''
        then [''commit_count'', ''repository'', ''ref'', ''commit_messages'']
      else if event_type = JStr ''PullRequestEvent''
        then [''action'', ''title'', ''number'', ''repository'']
      else if event_type = JStr ''IssuesEvent''
        then [''action'', ''title'', ''number'', ''repository'']
      else if event_type = JStr ''IssueCommentEvent''
        then [''repository'', ''issue_number'', ''comment_fragment'']
      else if event_type = JStr ''CreateEvent'' then [''ref_type'', ''ref'', ''repository'']
      else if event_type = JStr ''DeleteEvent'' then [''ref_type'', ''ref'', ''repository'']
      else if event_type = JStr ''WatchEvent'' then [''repository'']
      else [])"

section \<open>The activity source\<close>

subsection \<open>Transport\<close>

text \<open>
  What \<^verbatim>\<open>session.get\<close> returns: the status code, the headers (each header once, with
  its name as it was sent) and the outcome of \<^verbatim>\<open>response.json()\<close>, \<open>None\<close> when the
  body is not JSON.
\<close>

record response =
  status_code :: int
  resp_headers :: "(string \<times> string) list"
  json_result :: "json option"

text \<open>
  The source object: the request headers and the organization set by \<^verbatim>\<open>__init__\<close>, and
  the behaviour of its session, a function from the URL and the headers to a response or an
  exception.
\<close>

record GitHubActivitySource =
  headers :: "(string \<times> string) list"
  organization :: "string option"
  session_get :: "string \<Rightarrow> (string \<times> string) list \<Rightarrow> exn + response"

definition init_headers :: "string \<Rightarrow> (string \<times> string) list" where
  "init_headers token =
     [(''Authorization'', ''token '' @ token),
      (''Accept'', ''application/vnd.github.v3+json'')]"

text \<open>
  \<^verbatim>\<open>int(s)\<close> on a string: surrounding white space, an optional sign, decimal digits with
  single underscores between them. The white space is the ASCII one (tab to carriage return,
  and the space) and, above U+007F, the characters that \<^verbatim>\<open>int\<close> turns into a space
  first (U+0085 and U+00A0); there is no decimal digit between U+0080 and U+00FF.
\<close>

definition is_digit :: "char \<Rightarrow> bool" where
  "is_digit c = (48 \<le> (of_char c :: nat) \<and> (of_char c :: nat) \<le> 57)"

definition is_space :: "char \<Rightarrow> bool" where
  "is_space c =
     (let n = (of_char c :: nat)
      in (9 \<le> n \<and> n \<le> 13) \<or> n = 32 \<or> n = 133 \<or> n = 160)"

definition strip :: "string \<Rightarrow> string" where
  "strip s = rev (dropWhile is_space (rev (dropWhile is_space s)))"

fun digits_ok :: "string \<Rightarrow> bool" where
  "digits_ok [] = False"
| "digits_ok [c] = is_digit c"
| "digits_ok (c # d # ds) =
     (is_digit c \<and> (if d = CHR ''_'' then digits_ok ds else digits_ok (d # ds)))"

definition digits_value :: "string \<Rightarrow> int" where
  "digits_value ds =
     foldl (\<lambda>a c. 10 * a + (int (of_char c) - 48)) 0 (filter is_digit ds)"

definition py_int :: "string \<Rightarrow> exn + int" where
  "py_int s =
     (case strip s of
        [] \<Rightarrow> Inl ValueError
      | c # cs \<Rightarrow>
          (if c = CHR ''-'' then (if digits_ok cs then Inr (- digits_value cs) else Inl ValueError)
           else if c = CHR ''+'' then (if digits_ok cs then Inr (digits_value cs) else Inl ValueError)
           else if digits_ok (c # cs) then Inr (digits_value (c # cs))
           else Inl ValueError))"

text \<open>
  \<^verbatim>\<open>datetime.fromtimestamp(n)\<close> on an integer, for a process on a platform with a
  64-bit \<^verbatim>\<open>time_t\<close> whose local zone is UTC: a value outside \<^verbatim>\<open>time_t\<close> is an
  \<^verbatim>\<open>OverflowError\<close>; a value whose year does not fit the \<^verbatim>\<open>int\<close> of
  \<^verbatim>\<open>localtime\<close> is an \<^verbatim>\<open>OSError\<close>; a year outside 1 to 9999 is a
  \<^verbatim>\<open>ValueError\<close>, and so is the first day of year 1, because the function also
  converts the instant one day earlier. The source only logs the value.
\<close>

definition fromtimestamp :: "int \<Rightarrow> exn + int" where
  "fromtimestamp n =
     (if n < - 9223372036854775808 \<or> 9223372036854775807 < n then Inl OverflowError
      else if n < - 67768040609740800 \<or> 67767976233532799 < n then Inl OSError
      else if n < - 62135510400 \<or> 253402300799 < n then Inl ValueError
      else Inr n)"

definition raise_for_status :: "response \<Rightarrow> exn + unit" where
  "raise_for_status r =
     (if 400 \<le> status_code r \<and> status_code r < 600 then Inl HTTPError else Inr ())"

definition response_json :: "response \<Rightarrow> exn + json" where
  "response_json r = (case json_result r of None \<Rightarrow> Inl JSONDecodeError | Some j \<Rightarrow> Inr j)"

text \<open>
  \<^verbatim>\<open>response.headers\<close> is a dictionary that compares the names in lower case.
\<close>

definition header_lookup :: "response \<Rightarrow> string \<Rightarrow> string option" where
  "header_lookup r k =
     map_of (map (\<lambda>nv. (map lower_char (fst nv), snd nv)) (resp_headers r)) (map lower_char k)"

definition header_get :: "response \<Rightarrow> string \<Rightarrow> string \<Rightarrow> string" where
  "header_get r k dflt = (case header_lookup r k of None \<Rightarrow> dflt | Some v \<Rightarrow> v)"

text \<open>
  \<^verbatim>\<open>_fetch_github_data\<close>. The handler of \<^verbatim>\<open>except requests.RequestException\<close> logs
  and raises the exception again; any other exception is not caught. In both cases the
  exception leaves the function.
\<close>

definition fetch_github_data :: "GitHubActivitySource \<Rightarrow> string \<Rightarrow> exn + json" where
  "fetch_github_data self url =
     try_except
       (and_then (session_get self url (headers self)) (\<lambda>response.
          let rate_limit = header_get response ''X-RateLimit-Remaining'' ''unknown'';
              rate_limit_reset = header_get response ''X-RateLimit-Reset'' ''unknown''
          in and_then
               (if status_code response = 403
                   \<and> header_lookup response ''X-RateLimit-Remaining'' = Some ''0''
                then and_then (py_int rate_limit_reset) fromtimestamp
                else Inr 0) (\<lambda>reset_time.
             and_then (raise_for_status response) (\<lambda>u.
               response_json response))))
       (\<lambda>e. Inl e)"

subsection \<open>\<^verbatim>\<open>validate_credentials\<close>\<close>

definition validate_credentials :: "GitHubActivitySource \<Rightarrow> exn + bool" where
  "validate_credentials self =
     try_except
       (and_then (fetch_github_data self ''https://api.github.com/user'') (\<lambda>u. Inr True))
       (\<lambda>e. if is_RequestException e then Inr False else Inl e)"

subsection \<open>\<^verbatim>\<open>get_activities\<close>\<close>

text \<open>
  A Python \<^verbatim>\<open>datetime\<close> is naive (it has no zone) or aware. \<open>Naive t\<close> holds the
  wall-clock time and \<open>Aware t off\<close> the instant on the UTC time line with the offset of the
  zone, in microseconds. \<^verbatim>\<open>datetime.fromisoformat\<close> returns a naive value for a text
  without a zone and an aware one otherwise. Two values of the same kind compare by their
  time; \<^verbatim>\<open><\<close> between a naive and an aware value raises \<^verbatim>\<open>TypeError\<close>.
\<close>

datatype datetime = Naive int | Aware int int

fun instant :: "datetime \<Rightarrow> int" where
  "instant (Naive t) = t"
| "instant (Aware t off) = t"

fun is_aware :: "datetime \<Rightarrow> bool" where
  "is_aware (Naive t) = False"
| "is_aware (Aware t off) = True"

definition datetime_lt :: "datetime \<Rightarrow> datetime \<Rightarrow> exn + bool" where
  "datetime_lt a b =
     (if is_aware a = is_aware b then Inr (instant a < instant b) else Inl TypeError)"

record Activity =
  source :: string
  timestamp :: datetime
  type :: json
  details :: details
  message :: string

definition is_org_event :: "GitHubActivitySource \<Rightarrow> json \<Rightarrow> exn + bool" where
  "is_org_event self event =
     (case organization self of
        None \<Rightarrow> Inr True
      | Some org \<Rightarrow>
          (if org = [] then Inr True
           else and_then (dict_get event ''repo'' (JObj [])) (\<lambda>repo_obj.
                and_then (dict_get repo_obj ''name'' (JStr [])) (\<lambda>repo_name.
                  startswith repo_name (org @ ''/'')))))"

text \<open>
  The body of the loop (lines 278 to 299 of the source): \<open>Inr None\<close> is the
  \<^verbatim>\<open>continue\<close> of an event outside the organization. The parser
  \<^verbatim>\<open>datetime.fromisoformat\<close> of the standard library is the parameter \<open>fromisoformat\<close>.
\<close>

definition process_event ::
  "(string \<Rightarrow> exn + datetime) \<Rightarrow> GitHubActivitySource \<Rightarrow> json \<Rightarrow> exn + Activity option" where
  "process_event fromisoformat self event =
     and_then (is_org_event self event) (\<lambda>is_org.
       if \<not> is_org then Inr None
       else
         and_then (subscript event ''type'') (\<lambda>event_type.
         and_then (simplify_event_details event_type event) (\<lambda>simplified_details.
         and_then (get_human_readable_message event_type simplified_details) (\<lambda>human_message.
         and_then (subscript event ''created_at'') (\<lambda>created_at.
         and_then (str_replace created_at ''Z'' ''+00:00'') (\<lambda>iso.
         and_then (fromisoformat iso) (\<lambda>ts.
           Inr (Some \<lparr>source = ''github'', timestamp = ts, type = event_type,
                      details = simplified_details, message = human_message\<rparr>))))))))"

text \<open>The loop: an event whose processing raises is skipped.\<close>

fun process_events ::
  "(string \<Rightarrow> exn + datetime) \<Rightarrow> GitHubActivitySource \<Rightarrow> json list \<Rightarrow> Activity list
     \<Rightarrow> Activity list" where
  "process_events fromisoformat self [] activities = activities"
| "process_events fromisoformat self (event # events) activities =
     (case process_event fromisoformat self event of
        Inl e \<Rightarrow> process_events fromisoformat self events activities
      | Inr None \<Rightarrow> process_events fromisoformat self events activities
      | Inr (Some activity) \<Rightarrow>
          process_events fromisoformat self events (activities @ [activity]))"

text \<open>
  \<^verbatim>\<open>get_activities\<close>. The source turns \<open>start_date\<close> and \<open>end_date\<close> into strings
  for one debug log line (lines 262 to 265) and does not read them again.
\<close>

definition get_activities ::
  "(string \<Rightarrow> exn + datetime) \<Rightarrow> GitHubActivitySource \<Rightarrow> string
     \<Rightarrow> datetime option \<Rightarrow> datetime option \<Rightarrow> exn + Activity list" where
  "get_activities fromisoformat self username start_date end_date =
     (let url = ''https://api.github.com/users/'' @ username @ ''/events''
      in and_then (try_except (fetch_github_data self url) (\<lambda>e. Inl e)) (\<lambda>events_data.
         and_then (py_iter events_data) (\<lambda>events.
           Inr (process_events fromisoformat self events []))))"

section \<open>The activity tracker\<close>

text \<open>A registered source, seen through the two methods of the protocol.\<close>

record ActivitySource =
  source_get_activities ::
    "string \<Rightarrow> datetime option \<Rightarrow> datetime option \<Rightarrow> exn + Activity list"
  source_validate_credentials :: "exn + bool"

record ActivityTracker =
  sources :: "ActivitySource list"

definition add_source :: "ActivityTracker \<Rightarrow> ActivitySource \<Rightarrow> exn + ActivityTracker" where
  "add_source self src =
     try_except
       (and_then (source_validate_credentials src) (\<lambda>valid.
          if valid then Inr (self\<lparr>sources := sources self @ [src]\<rparr>) else Inl ValueError))
       (\<lambda>e. Inl e)"

text \<open>
  \<^verbatim>\<open>sorted(xs, key=key, reverse=True)\<close>: Python reverses the list, sorts it stably in
  ascending order with \<^verbatim>\<open><\<close> on the keys, and reverses the result. The stable sort is
  modelled by insertion, with the comparison that may raise. The outcome does not depend on
  the sorting algorithm: without an exception the stable order is unique, and an algorithm
  that only compares keys has compared every two neighbours of its result, so it meets a
  naive and an aware key whenever the list has both.
\<close>

fun insort_by :: "('a \<Rightarrow> datetime) \<Rightarrow> 'a \<Rightarrow> 'a list \<Rightarrow> exn + 'a list" where
  "insort_by key x [] = Inr [x]"
| "insort_by key x (y # ys) =
     and_then (datetime_lt (key y) (key x)) (\<lambda>less.
       if less then and_then (insort_by key x ys) (\<lambda>zs. Inr (y # zs))
       else Inr (x # y # ys))"

fun sort_by :: "('a \<Rightarrow> datetime) \<Rightarrow> 'a list \<Rightarrow> exn + 'a list" where
  "sort_by key [] = Inr []"
| "sort_by key (x # xs) = and_then (sort_by key xs) (insort_by key x)"

definition sorted_reverse :: "('a \<Rightarrow> datetime) \<Rightarrow> 'a list \<Rightarrow> exn + 'a list" where
  "sorted_reverse key xs = and_then (sort_by key (rev xs)) (\<lambda>ys. Inr (rev ys))"

text \<open>The loop over the sources: a source that raises is skipped.\<close>

fun gather ::
  "ActivitySource list \<Rightarrow> string \<Rightarrow> datetime option \<Rightarrow> datetime option \<Rightarrow> Activity list
     \<Rightarrow> Activity list" where
  "gather [] username start_date end_date activities = activities"
| "gather (src # srcs) username start_date end_date activities =
     (case source_get_activities src username start_date end_date of
        Inl e \<Rightarrow> gather srcs username start_date end_date activities
      | Inr source_activities \<Rightarrow>
          gather srcs username start_date end_date (activities @ source_activities))"

definition get_all_activities ::
  "ActivityTracker \<Rightarrow> string \<Rightarrow> datetime option \<Rightarrow> datetime option \<Rightarrow> exn + Activity list" where
  "get_all_activities self username start_date end_date =
     (let activities = gather (sources self) username start_date end_date []
      in and_then (sorted_reverse timestamp activities) (\<lambda>sorted_activities.
           Inr sorted_activities))"

section \<open>Notions used to state the properties\<close>

text \<open>The value of a field of an object, or the default of the source when it is absent.\<close>

definition get_or :: "(string \<times> json) list \<Rightarrow> string \<Rightarrow> json \<Rightarrow> json" where
  "get_or kvs k dflt = (case map_of kvs k of None \<Rightarrow> dflt | Some v \<Rightarrow> v)"

text \<open>What the sources that answer return, in the order of the sources.\<close>

definition answered ::
  "ActivitySource list \<Rightarrow> string \<Rightarrow> datetime option \<Rightarrow> datetime option \<Rightarrow> Activity list" where
  "answered srcs username start_date end_date =
     concat (map (\<lambda>src. case source_get_activities src username start_date end_date of
                          Inl e \<Rightarrow> [] | Inr xs \<Rightarrow> xs) srcs)"

text \<open>Activities whose timestamps are all naive or all aware.\<close>

definition one_kind :: "Activity list \<Rightarrow> bool" where
  "one_kind acts =
     (\<forall>a \<in> set acts. \<forall>b \<in> set acts. is_aware (timestamp a) = is_aware (timestamp b))"

section \<open>Concrete inputs\<close>

text \<open>
  A response that reports an exhausted rate limit and carries no
  \<^verbatim>\<open>X-RateLimit-Reset\<close> header.
\<close>

definition rate_limited_source :: GitHubActivitySource where
  "rate_limited_source =
     \<lparr>headers = init_headers ''secret'', organization = None,
      session_get = (\<lambda>url hs. Inr \<lparr>status_code = 403,
         resp_headers = [(''X-RateLimit-Remaining'', ''0'')], json_result = None\<rparr>)\<rparr>"

text \<open>A push event with an empty list of commits.\<close>

definition empty_push :: json where
  "empty_push =
     JObj [(''type'', JStr ''PushEvent''),
           (''repo'', JObj [(''name'', JStr ''octo/app'')]),
           (''payload'', JObj [(''ref'', JStr ''refs/heads/main''), (''commits'', JList [])])]"

text \<open>Activities and sources with a fixed answer.\<close>

definition activity_at :: "datetime \<Rightarrow> Activity" where
  "activity_at t =
     \<lparr>source = ''github'', timestamp = t, type = JStr ''WatchEvent'',
      details = [(''action'', JStr ''started'')], message = ''Starred repository octo/app''\<rparr>"

definition fixed_source :: "exn + Activity list \<Rightarrow> ActivitySource" where
  "fixed_source answer =
     \<lparr>source_get_activities = (\<lambda>username start_date end_date. answer),
      source_validate_credentials = Inr True\<rparr>"

text \<open>A push of one commit to \<^verbatim>\<open>refs/heads/main\<close>, and the details built from it.\<close>

definition push_main :: json where
  "push_main =
     JObj [(''type'', JStr ''PushEvent''),
           (''repo'', JObj [(''name'', JStr ''octo/app'')]),
           (''payload'',
              JObj [(''ref'', JStr ''refs/heads/main''),
                    (''commits'', JList [JObj [(''message'', JStr ''Fix typo'')]]),
                    (''before'', JStr ''1a2b''),
                    (''head'', JStr ''3c4d'')])]"

definition push_main_details :: details where
  "push_main_details =
     [(''repository'', JStr ''octo/app''),
      (''repository_url'', JStr ''https://github.com/octo/app''),
      (''ref'', JStr ''refs/heads/main''),
      (''commit_count'', JInt 1),
      (''commit_messages'', JList [JStr ''Fix typo'']),
      (''compare_url'', JStr ''https://github.com/octo/app/compare/1a2b...3c4d'')]"

text \<open>Issue comment events: a body of 150 characters, and no comment at all.\<close>

definition long_comment :: json where
  "long_comment =
     JObj [(''type'', JStr ''IssueCommentEvent''),
           (''repo'', JObj [(''name'', JStr ''octo/app'')]),
           (''payload'',
              JObj [(''action'', JStr ''created''),
                    (''issue'', JObj [(''number'', JInt 7)]),
                    (''comment'', JObj [(''body'', JStr (replicate 150 CHR ''a''))])])]"

definition no_comment :: json where
  "no_comment =
     JObj [(''type'', JStr ''IssueCommentEvent''),
           (''repo'', JObj [(''name'', JStr ''octo/app'')]),
           (''payload'', JObj [(''action'', JStr ''created'')])]"

text \<open>The event of 150 characters with \<^verbatim>\<open>null\<close> for its issue.\<close>

definition long_comment_null_issue :: json where
  "long_comment_null_issue =
     JObj [(''type'', JStr ''IssueCommentEvent''),
           (''repo'', JObj [(''name'', JStr ''octo/app'')]),
           (''payload'',
              JObj [(''action'', JStr ''created''),
                    (''issue'', JNull),
                    (''comment'', JObj [(''body'', JStr (replicate 150 CHR ''a''))])])]"

text \<open>A comment of ten characters, and the same event with \<^verbatim>\<open>null\<close> for its repo.\<close>

definition short_comment :: json where
  "short_comment =
     JObj [(''type'', JStr ''IssueCommentEvent''),
           (''repo'', JObj [(''name'', JStr ''octo/app'')]),
           (''payload'',
              JObj [(''action'', JStr ''created''),
                    (''issue'', JObj [(''number'', JInt 7)]),
                    (''comment'', JObj [(''body'', JStr ''Looks good'')])])]"

definition short_comment_null_repo :: json where
  "short_comment_null_repo =
     JObj [(''type'', JStr ''IssueCommentEvent''),
           (''repo'', JNull),
           (''payload'',
              JObj [(''action'', JStr ''created''),
                    (''issue'', JObj [(''number'', JInt 7)]),
                    (''comment'', JObj [(''body'', JStr ''Looks good'')])])]"

section \<open>Properties\<close>

subsection \<open>Raising and catching\<close>

lemma and_then_Inl [simp]: "and_then (Inl e) f = Inl e"
  by (simp add: and_then_def)

lemma and_then_Inr [simp]: "and_then (Inr x) f = f x"
  by (simp add: and_then_def)

lemma try_except_Inl [simp]: "try_except (Inl e) h = h e"
  by (simp add: try_except_def)

lemma try_except_Inr [simp]: "try_except (Inr x) h = Inr x"
  by (simp add: try_except_def)

lemma isl_and_then: "isl (and_then m f) \<longleftrightarrow> (\<forall>x. m = Inr x \<longrightarrow> isl (f x))"
  by (cases m) simp_all

lemma and_then_eq_Inr: "and_then m f = Inr y \<longleftrightarrow> (\<exists>x. m = Inr x \<and> f x = Inr y)"
  by (cases m) simp_all

lemma item_missing: "map_of d k = None \<Longrightarrow> item d k = Inl KeyError"
  by (simp add: item_def)

subsection \<open>The simplify operation\<close>

text \<open>
  Claim C1. For every event type and every raw event, \<^verbatim>\<open>_simplify_event_details\<close>
  returns a mapping and does not raise. When the extraction in the \<^verbatim>\<open>try\<close> block
  raises, whatever the exception, the result is exactly the fallback
  \<^verbatim>\<open>{"error": "Failed to process event details"}\<close>; otherwise it is the mapping the
  block built.
\<close>

theorem simplify_event_details_never_raises:
  "(\<exists>d. simplify_event_details event_type event = Inr d)
   \<and> (\<forall>e. simplify_try event_type event = Inl e
          \<longrightarrow> simplify_event_details event_type event = Inr error_details)
   \<and> (\<forall>d. simplify_try event_type event = Inr d
          \<longrightarrow> simplify_event_details event_type event = Inr d)"
  by (cases "simplify_try event_type event") (simp_all add: simplify_event_details_def)

theorem simplify_event_details_never_raises_witness:
  "simplify_try (JStr ''IssuesEvent'') (JObj [(''repo'', JNull)]) = Inl AttributeError
   \<and> simplify_event_details (JStr ''IssuesEvent'') (JObj [(''repo'', JNull)])
       = Inr error_details"
proof -
  have raised:
    "simplify_try (JStr ''IssuesEvent'') (JObj [(''repo'', JNull)]) = Inl AttributeError"
    by (simp add: simplify_try_def)
  with simplify_event_details_never_raises
         [of "JStr ''IssuesEvent''" "JObj [(''repo'', JNull)]"]
  show ?thesis by blast
qed

text \<open>
  When the extraction does not raise, the details hold \<^verbatim>\<open>repository\<close> and
  \<^verbatim>\<open>repository_url\<close>, whatever the event type.
\<close>

lemma branch_has_repository:
  "simplify_push repo url payload = Inr d
     \<Longrightarrow> map_of d ''repository'' = Some repo \<and> map_of d ''repository_url'' = Some (JStr url)"
  "simplify_pull_request repo url payload = Inr d
     \<Longrightarrow> map_of d ''repository'' = Some repo \<and> map_of d ''repository_url'' = Some (JStr url)"
  "simplify_issues repo url payload = Inr d
     \<Longrightarrow> map_of d ''repository'' = Some repo \<and> map_of d ''repository_url'' = Some (JStr url)"
  "simplify_issue_comment repo url payload = Inr d
     \<Longrightarrow> map_of d ''repository'' = Some repo \<and> map_of d ''repository_url'' = Some (JStr url)"
  "simplify_create repo url payload = Inr d
     \<Longrightarrow> map_of d ''repository'' = Some repo \<and> map_of d ''repository_url'' = Some (JStr url)"
  "simplify_delete repo url payload = Inr d
     \<Longrightarrow> map_of d ''repository'' = Some repo \<and> map_of d ''repository_url'' = Some (JStr url)"
  "simplify_watch repo url payload = Inr d
     \<Longrightarrow> map_of d ''repository'' = Some repo \<and> map_of d ''repository_url'' = Some (JStr url)"
  unfolding simplify_push_def simplify_pull_request_def simplify_issues_def
    simplify_issue_comment_def simplify_create_def simplify_delete_def simplify_watch_def
  by (auto simp: and_then_eq_Inr)

lemma simplify_try_has_repository:
  assumes "simplify_try et ev = Inr d"
  shows "map_of d ''repository'' \<noteq> None \<and> map_of d ''repository_url'' \<noteq> None"
proof -
  from assms obtain repo url payload where
    branches: "(if et = JStr ''PushEvent''
          then simplify_push repo url payload
          else if et = JStr ''PullRequestEvent''
            then simplify_pull_request repo url payload
          else if et = JStr ''IssuesEvent''
            then simplify_issues repo url payload
          else if et = JStr ''IssueCommentEvent''
            then simplify_issue_comment repo url payload
          else if et = JStr ''CreateEvent''
            then simplify_create repo url payload
          else if et = JStr ''DeleteEvent''
            then simplify_delete repo url payload
          else if et = JStr ''WatchEvent''
            then simplify_watch repo url payload
          else Inr [(''event_type'', et), (''repository'', repo),
                    (''repository_url'', JStr url)]) = Inr d"
    unfolding simplify_try_def by (auto simp: and_then_eq_Inr Let_def)
  then show ?thesis
    by (auto split: if_splits dest: branch_has_repository)
qed

subsection \<open>The source\<close>

text \<open>
  Claim C9. With the transport held fixed, \<^verbatim>\<open>get_activities\<close> returns the same
  outcome, and so the same activity list, for every choice of \<open>start_date\<close> and
  \<open>end_date\<close>: the fetched events are never filtered by the date range.
\<close>

theorem get_activities_ignores_dates:
  "get_activities fromisoformat self username start_date end_date
   = get_activities fromisoformat self username start_date' end_date'"
  by (simp add: get_activities_def)

text \<open>
  What \<^verbatim>\<open>validate_credentials\<close> returns when the transport raises, and when it
  answers outside the rate-limit branch.
\<close>

lemma validate_credentials_transport_failure:
  "session_get self ''https://api.github.com/user'' (headers self) = Inl e
   \<Longrightarrow> is_RequestException e \<Longrightarrow> validate_credentials self = Inr False"
  by (simp add: validate_credentials_def fetch_github_data_def)

lemma validate_credentials_answer:
  "session_get self ''https://api.github.com/user'' (headers self) = Inr r
   \<Longrightarrow> \<not> (status_code r = 403 \<and> header_lookup r ''X-RateLimit-Remaining'' = Some ''0'')
   \<Longrightarrow> validate_credentials self
       = Inr (\<not> (400 \<le> status_code r \<and> status_code r < 600) \<and> json_result r \<noteq> None)"
  by (auto simp: validate_credentials_def fetch_github_data_def raise_for_status_def
      response_json_def split: option.splits)

text \<open>
  Claim C6. On a 403 response with \<^verbatim>\<open>X-RateLimit-Remaining: 0\<close> and no
  \<^verbatim>\<open>X-RateLimit-Reset\<close> header, \<^verbatim>\<open>_fetch_github_data\<close> evaluates
  \<^verbatim>\<open>int('unknown')\<close>; the \<^verbatim>\<open>ValueError\<close> is not a request exception and leaves
  \<^verbatim>\<open>validate_credentials\<close>.
\<close>

theorem validate_credentials_raises_on_missing_reset:
  "validate_credentials rate_limited_source = Inl ValueError"
  by code_simp

subsection \<open>The describe operation\<close>

text \<open>
  The Push message on details of the shape \<^verbatim>\<open>_simplify_event_details\<close> builds: the
  plural is chosen by \<^verbatim>\<open>commit_count > 1\<close>.
\<close>

lemma push_message_shape:
  assumes "map_of d ''commit_count'' = Some (JInt n)"
    and "map_of d ''repository'' = Some repo"
    and "map_of d ''ref'' = Some (JStr ref)"
    and "map_of d ''commit_messages'' = Some (JList ms)"
  shows "get_human_readable_message (JStr ''PushEvent'') d
         = Inr (''Pushed '' @ str_int n @ '' commit'' @ (if 1 < n then ''s'' else [])
                @ '' to '' @ py_str repo @ ''/'' @ replace ''refs/heads/'' [] ref
                @ (case ms of [] \<Rightarrow> [] | m # rest \<Rightarrow> '': '' @ py_str m))"
  using assms
  by (cases ms)
     (simp_all add: get_human_readable_message_def message_try_def message_push_def item_def)

text \<open>
  Claim C7. For a push of no commits the details carry \<^verbatim>\<open>commit_count\<close> 0, and the
  message has the singular \<^verbatim>\<open>commit\<close>, although the count is not 1.
\<close>

theorem push_message_zero_commits:
  "simplify_event_details (JStr ''PushEvent'') empty_push =
     Inr [(''repository'', JStr ''octo/app''),
          (''repository_url'', JStr ''https://github.com/octo/app''),
          (''ref'', JStr ''refs/heads/main''),
          (''commit_count'', JInt 0),
          (''commit_messages'', JList []),
          (''compare_url'', JStr ''https://github.com/octo/app/compare/...'')]
   \<and> get_human_readable_message (JStr ''PushEvent'')
         [(''repository'', JStr ''octo/app''),
          (''repository_url'', JStr ''https://github.com/octo/app''),
          (''ref'', JStr ''refs/heads/main''),
          (''commit_count'', JInt 0),
          (''commit_messages'', JList []),
          (''compare_url'', JStr ''https://github.com/octo/app/compare/...'')]
       = Inr ''Pushed 0 commit to octo/app/main''"
  by (simp add: empty_push_def simplify_event_details_def simplify_try_def simplify_push_def
      get_human_readable_message_def message_try_def message_push_def item_def
      str_int_def str_nat.simps digit_char_def)

text \<open>A missing key makes the \<^verbatim>\<open>try\<close> block raise; what it returns is never empty.\<close>

lemma message_try_missing:
  "k \<in> set (required_keys et) \<Longrightarrow> map_of d k = None \<Longrightarrow> isl (message_try et d)"
  unfolding message_try_def required_keys_def message_push_def message_pull_request_def
    message_issues_def message_issue_comment_def message_create_def message_delete_def
    message_watch_def
  by (auto simp: item_missing isl_and_then split: if_splits)

lemma message_try_nonempty: "message_try et d = Inr m \<Longrightarrow> m \<noteq> []"
  unfolding message_try_def message_push_def message_pull_request_def
    message_issues_def message_issue_comment_def message_create_def message_delete_def
    message_watch_def
  by (auto simp: and_then_eq_Inr split: if_splits)

lemma message_fallback:
  "isl (message_try et d)
   \<Longrightarrow> get_human_readable_message et d = Inr (''Performed '' @ py_str et)"
  by (cases "message_try et d") (simp_all add: get_human_readable_message_def)

lemma message_on_error_details:
  "get_human_readable_message et error_details
   = Inr (''Performed '' @ py_str et
          @ (if required_keys et = [] then '' on unknown repository'' else []))"
proof (cases "required_keys et = []")
  case True
  then have "message_try et error_details
             = Inr (''Performed '' @ py_str et @ '' on unknown repository'')"
    by (simp add: message_try_def required_keys_def error_details_def split: if_splits)
  with True show ?thesis by (simp add: get_human_readable_message_def)
next
  case False
  then obtain k where k: "k \<in> set (required_keys et)" by (cases "required_keys et") auto
  then have "map_of error_details k = None"
    by (auto simp: required_keys_def error_details_def split: if_splits)
  with k have "isl (message_try et error_details)" by (rule message_try_missing)
  with False show ?thesis by (simp add: message_fallback)
qed

text \<open>
  Claim C4. For every event type and every details mapping,
  \<^verbatim>\<open>_get_human_readable_message\<close> returns a non-empty string and does not raise.
  When a key that the branch of the event type reads with \<^verbatim>\<open>details[...]\<close> is absent,
  the result is exactly \<^verbatim>\<open>Performed {event_type}\<close>. On the fallback mapping of the
  simplify operation it is that string for the seven recognized types; the generic branch,
  which reads \<^verbatim>\<open>repository\<close> with a default, appends
  \<^verbatim>\<open>on unknown repository\<close>.
\<close>

theorem get_human_readable_message_never_raises:
  "(\<exists>m. get_human_readable_message event_type dts = Inr m \<and> m \<noteq> [])
   \<and> (\<forall>k \<in> set (required_keys event_type). map_of dts k = None
          \<longrightarrow> get_human_readable_message event_type dts
              = Inr (''Performed '' @ py_str event_type))
   \<and> get_human_readable_message event_type error_details
       = Inr (''Performed '' @ py_str event_type
              @ (if required_keys event_type = [] then '' on unknown repository'' else []))"
proof (intro conjI ballI impI)
  show "\<exists>m. get_human_readable_message event_type dts = Inr m \<and> m \<noteq> []"
  proof (cases "message_try event_type dts")
    case (Inl e)
    then show ?thesis by (simp add: get_human_readable_message_def)
  next
    case (Inr m)
    then show ?thesis
      by (simp add: get_human_readable_message_def message_try_nonempty)
  qed
next
  fix k
  assume "k \<in> set (required_keys event_type)" and "map_of dts k = None"
  then have "isl (message_try event_type dts)" by (rule message_try_missing)
  then show "get_human_readable_message event_type dts
             = Inr (''Performed '' @ py_str event_type)"
    by (rule message_fallback)
next
  show "get_human_readable_message event_type error_details
        = Inr (''Performed '' @ py_str event_type
               @ (if required_keys event_type = [] then '' on unknown repository'' else []))"
    by (rule message_on_error_details)
qed

theorem get_human_readable_message_never_raises_witness:
  "''repository'' \<in> set (required_keys (JStr ''WatchEvent''))
   \<and> map_of [(''action'', JStr ''started'')] ''repository'' = None
   \<and> get_human_readable_message (JStr ''WatchEvent'') [(''action'', JStr ''started'')]
       = Inr ''Performed WatchEvent''"
proof -
  have key: "''repository'' \<in> set (required_keys (JStr ''WatchEvent''))"
    by (simp add: required_keys_def)
  have missing: "map_of [(''action'', JStr ''started'')] ''repository'' = None"
    by simp
  from get_human_readable_message_never_raises
         [of "JStr ''WatchEvent''" "[(''action'', JStr ''started'')]"] key missing
  have "get_human_readable_message (JStr ''WatchEvent'') [(''action'', JStr ''started'')]
        = Inr (''Performed '' @ py_str (JStr ''WatchEvent''))"
    by blast
  with key missing show ?thesis by simp
qed

subsection \<open>The tracker\<close>

text \<open>
  The sort: on keys of one kind it is the stable sort of the library by the time of the key;
  on a list with a naive and an aware key it raises \<^verbatim>\<open>TypeError\<close>.
\<close>

lemma datetime_lt_same_kind:
  "is_aware a = is_aware b \<Longrightarrow> datetime_lt a b = Inr (instant a < instant b)"
  by (simp add: datetime_lt_def)

lemma datetime_lt_other_kind:
  "is_aware a \<noteq> is_aware b \<Longrightarrow> datetime_lt a b = Inl TypeError"
  by (simp add: datetime_lt_def)

lemma insort_by_same_kind:
  assumes "\<forall>y \<in> set ys. is_aware (key y) = is_aware (key x)"
  shows "insort_by key x ys = Inr (insort_key (\<lambda>a. instant (key a)) x ys)"
  using assms
proof (induction ys)
  case Nil
  show ?case by simp
next
  case (Cons y ys)
  from Cons.prems have kind: "is_aware (key y) = is_aware (key x)" by simp
  from Cons.prems have "\<forall>y \<in> set ys. is_aware (key y) = is_aware (key x)" by simp
  then have rest: "insort_by key x ys = Inr (insort_key (\<lambda>a. instant (key a)) x ys)"
    by (rule Cons.IH)
  have "insort_by key x (y # ys) =
          (if instant (key y) < instant (key x)
           then Inr (y # insort_key (\<lambda>a. instant (key a)) x ys)
           else Inr (x # y # ys))"
    by (simp add: datetime_lt_same_kind [OF kind] rest)
  then show ?case by (simp add: not_less)
qed

lemma insort_by_other_kind:
  assumes "ys \<noteq> []" and "\<forall>y \<in> set ys. is_aware (key y) \<noteq> is_aware (key x)"
  shows "insort_by key x ys = Inl TypeError"
proof (cases ys)
  case Nil
  with assms(1) show ?thesis by simp
next
  case (Cons y zs)
  with assms(2) have "is_aware (key y) \<noteq> is_aware (key x)" by simp
  then have "datetime_lt (key y) (key x) = Inl TypeError" by (rule datetime_lt_other_kind)
  with Cons show ?thesis by simp
qed

lemma sort_by_same_kind:
  assumes "\<forall>a \<in> set xs. \<forall>b \<in> set xs. is_aware (key a) = is_aware (key b)"
  shows "sort_by key xs = Inr (sort_key (\<lambda>a. instant (key a)) xs)"
  using assms
proof (induction xs)
  case Nil
  show ?case by simp
next
  case (Cons x xs)
  from Cons.prems
  have "\<forall>a \<in> set xs. \<forall>b \<in> set xs. is_aware (key a) = is_aware (key b)"
    by (meson list.set_intros(2))
  then have sorted: "sort_by key xs = Inr (sort_key (\<lambda>a. instant (key a)) xs)"
    by (rule Cons.IH)
  from Cons.prems have "\<forall>y \<in> set xs. is_aware (key y) = is_aware (key x)"
    by (meson list.set_intros)
  then have "\<forall>y \<in> set (sort_key (\<lambda>a. instant (key a)) xs).
               is_aware (key y) = is_aware (key x)"
    by (simp only: set_sort)
  then have "insort_by key x (sort_key (\<lambda>a. instant (key a)) xs)
             = Inr (insort_key (\<lambda>a. instant (key a)) x (sort_key (\<lambda>a. instant (key a)) xs))"
    by (rule insort_by_same_kind)
  with sorted show ?case by simp
qed

lemma sort_by_mixed:
  assumes "\<not> (\<forall>a \<in> set xs. \<forall>b \<in> set xs. is_aware (key a) = is_aware (key b))"
  shows "sort_by key xs = Inl TypeError"
  using assms
proof (induction xs)
  case Nil
  then show ?case by simp
next
  case (Cons x xs)
  show ?case
  proof (cases "\<forall>a \<in> set xs. \<forall>b \<in> set xs. is_aware (key a) = is_aware (key b)")
    case False
    then have "sort_by key xs = Inl TypeError" by (rule Cons.IH)
    then show ?thesis by simp
  next
    case True
    then have sorted: "sort_by key xs = Inr (sort_key (\<lambda>a. instant (key a)) xs)"
      by (rule sort_by_same_kind)
    from Cons.prems obtain a b where ab: "a \<in> set (x # xs)" "b \<in> set (x # xs)"
      "is_aware (key a) \<noteq> is_aware (key b)"
      by blast
    with True obtain c where c: "c \<in> set xs" "is_aware (key c) \<noteq> is_aware (key x)"
      by (metis set_ConsD)
    with True have other: "\<forall>y \<in> set xs. is_aware (key y) \<noteq> is_aware (key x)"
      by metis
    from c(1) have "sort_key (\<lambda>a. instant (key a)) xs \<noteq> []"
      by (metis empty_iff list.set(1) set_sort)
    moreover from other
    have "\<forall>y \<in> set (sort_key (\<lambda>a. instant (key a)) xs).
            is_aware (key y) \<noteq> is_aware (key x)"
      by (simp only: set_sort)
    ultimately have "insort_by key x (sort_key (\<lambda>a. instant (key a)) xs) = Inl TypeError"
      by (rule insort_by_other_kind)
    with sorted show ?thesis by simp
  qed
qed

lemma sorted_reverse_same_kind:
  assumes "\<forall>a \<in> set xs. \<forall>b \<in> set xs. is_aware (key a) = is_aware (key b)"
  shows "sorted_reverse key xs = Inr (rev (sort_key (\<lambda>a. instant (key a)) (rev xs)))"
proof -
  have "\<forall>a \<in> set (rev xs). \<forall>b \<in> set (rev xs). is_aware (key a) = is_aware (key b)"
    unfolding set_rev by (rule assms)
  then have "sort_by key (rev xs) = Inr (sort_key (\<lambda>a. instant (key a)) (rev xs))"
    by (rule sort_by_same_kind)
  then show ?thesis by (simp only: sorted_reverse_def and_then_Inr)
qed

lemma sorted_reverse_mixed:
  assumes "\<not> (\<forall>a \<in> set xs. \<forall>b \<in> set xs. is_aware (key a) = is_aware (key b))"
  shows "sorted_reverse key xs = Inl TypeError"
proof -
  have "\<not> (\<forall>a \<in> set (rev xs). \<forall>b \<in> set (rev xs).
              is_aware (key a) = is_aware (key b))"
    unfolding set_rev by (rule assms)
  then have "sort_by key (rev xs) = Inl TypeError"
    by (rule sort_by_mixed)
  then show ?thesis by (simp only: sorted_reverse_def and_then_Inl)
qed

text \<open>The loop collects what each source returns.\<close>

lemma gather_answered:
  "gather srcs username start_date end_date activities
   = activities @ answered srcs username start_date end_date"
  by (induction srcs arbitrary: activities) (auto simp: answered_def split: sum.splits)

lemma get_all_activities_one_kind:
  assumes "one_kind (answered (sources self) username start_date end_date)"
  shows "get_all_activities self username start_date end_date
         = Inr (rev (sort_key (\<lambda>a. instant (timestamp a))
                      (rev (answered (sources self) username start_date end_date))))"
proof -
  from assms
  have "sorted_reverse timestamp (answered (sources self) username start_date end_date)
        = Inr (rev (sort_key (\<lambda>a. instant (timestamp a))
                      (rev (answered (sources self) username start_date end_date))))"
    unfolding one_kind_def by (rule sorted_reverse_same_kind)
  then show ?thesis
    by (simp only: get_all_activities_def Let_def gather_answered append_Nil and_then_Inr)
qed

lemma get_all_activities_mixed:
  assumes "\<not> one_kind (answered (sources self) username start_date end_date)"
  shows "get_all_activities self username start_date end_date = Inl TypeError"
proof -
  from assms
  have "sorted_reverse timestamp (answered (sources self) username start_date end_date)
        = Inl TypeError"
    unfolding one_kind_def by (rule sorted_reverse_mixed)
  then show ?thesis
    by (simp only: get_all_activities_def Let_def gather_answered append_Nil and_then_Inl)
qed

text \<open>Reversing, sorting and reversing gives a stable descending sort.\<close>

lemma descending_sort:
  "sorted_wrt (\<lambda>a b. key b \<le> key a) (rev (sort_key key (rev xs)))"
proof -
  have "sorted (map key (sort_key key (rev xs)))" by simp
  then have "sorted_wrt (\<lambda>a b. key a \<le> key b) (sort_key key (rev xs))"
    by (simp add: sorted_map)
  then show ?thesis by (simp add: sorted_wrt_rev)
qed

lemma descending_sort_stable:
  "filter (\<lambda>a. key a = t) (rev (sort_key key (rev xs))) = filter (\<lambda>a. key a = t) xs"
proof -
  have "filter (\<lambda>a. key a = t) (rev (sort_key key (rev xs)))
        = rev (filter (\<lambda>a. key a = t) (sort_key key (rev xs)))"
    by (simp add: rev_filter)
  also have "\<dots> = rev (filter (\<lambda>a. key a = t) (rev xs))"
    by (simp only: sort_key_stable)
  also have "\<dots> = filter (\<lambda>a. key a = t) xs"
    by (simp add: rev_filter)
  finally show ?thesis .
qed

text \<open>
  Claim C3 as stated fails. A source that returns an activity with a naive timestamp and a
  source that returns one with an aware timestamp make the \<^verbatim>\<open>sorted\<close> call, which is
  outside the \<^verbatim>\<open>try\<close>, raise \<^verbatim>\<open>TypeError\<close>: nothing is returned.
\<close>

theorem get_all_activities_sorted_counterexample:
  "get_all_activities
     \<lparr>sources = [fixed_source (Inr [activity_at (Naive 1)]),
                 fixed_source (Inr [activity_at (Aware 2 0)])]\<rparr> ''octocat'' None None
   = Inl TypeError"
  by (simp add: get_all_activities_def sorted_reverse_def fixed_source_def activity_at_def
      datetime_lt_def)

text \<open>
  Claim C3, amended. For every tracker and username such that the timestamps of the
  activities returned by the answering sources are all naive or all aware,
  \<^verbatim>\<open>get_all_activities\<close> returns these activities, concatenated in source order and
  sorted by timestamp, latest first: the result has the same elements, is descending, and
  activities with equal timestamps keep the order of the concatenation. In particular two
  sources returning timestamps \<open>[T1, T3]\<close> and \<open>[T2]\<close> with \<open>T1 < T2 < T3\<close> give the
  order \<open>[T3, T2, T1]\<close>.
\<close>

theorem get_all_activities_sorted:
  "(one_kind (answered (sources self) username start_date end_date) \<longrightarrow>
      (\<exists>r. get_all_activities self username start_date end_date = Inr r
          \<and> mset r = mset (answered (sources self) username start_date end_date)
          \<and> sorted_wrt (\<lambda>a b. instant (timestamp b) \<le> instant (timestamp a)) r
          \<and> (\<forall>t. filter (\<lambda>a. instant (timestamp a) = t) r
                  = filter (\<lambda>a. instant (timestamp a) = t)
                      (answered (sources self) username start_date end_date))))
   \<and> (sources self = [s1, s2]
        \<and> source_get_activities s1 username start_date end_date = Inr [a1, a3]
        \<and> source_get_activities s2 username start_date end_date = Inr [a2]
        \<and> datetime_lt (timestamp a1) (timestamp a2) = Inr True
        \<and> datetime_lt (timestamp a2) (timestamp a3) = Inr True
      \<longrightarrow> get_all_activities self username start_date end_date = Inr [a3, a2, a1])"
proof (intro conjI impI)
  assume "one_kind (answered (sources self) username start_date end_date)"
  then have "get_all_activities self username start_date end_date
         = Inr (rev (sort_key (\<lambda>a. instant (timestamp a))
                      (rev (answered (sources self) username start_date end_date))))"
    by (rule get_all_activities_one_kind)
  then show "\<exists>r. get_all_activities self username start_date end_date = Inr r
          \<and> mset r = mset (answered (sources self) username start_date end_date)
          \<and> sorted_wrt (\<lambda>a b. instant (timestamp b) \<le> instant (timestamp a)) r
          \<and> (\<forall>t. filter (\<lambda>a. instant (timestamp a) = t) r
                  = filter (\<lambda>a. instant (timestamp a) = t)
                      (answered (sources self) username start_date end_date))"
    by (simp add: descending_sort descending_sort_stable)
next
  assume example: "sources self = [s1, s2]
        \<and> source_get_activities s1 username start_date end_date = Inr [a1, a3]
        \<and> source_get_activities s2 username start_date end_date = Inr [a2]
        \<and> datetime_lt (timestamp a1) (timestamp a2) = Inr True
        \<and> datetime_lt (timestamp a2) (timestamp a3) = Inr True"
  then have k12: "is_aware (timestamp a1) = is_aware (timestamp a2)"
    and l12: "instant (timestamp a1) < instant (timestamp a2)"
    by (auto simp: datetime_lt_def split: if_splits)
  from example have k23: "is_aware (timestamp a2) = is_aware (timestamp a3)"
    and l23: "instant (timestamp a2) < instant (timestamp a3)"
    by (auto simp: datetime_lt_def split: if_splits)
  from k12 k23 l12 l23 have c13: "datetime_lt (timestamp a1) (timestamp a3) = Inr True"
    by (simp add: datetime_lt_def)
  from k23 l23 have c32: "datetime_lt (timestamp a3) (timestamp a2) = Inr False"
    by (simp add: datetime_lt_def)
  from example have c12: "datetime_lt (timestamp a1) (timestamp a2) = Inr True"
    by simp
  from example have "gather (sources self) username start_date end_date [] = [a1, a3, a2]"
    by simp
  then show "get_all_activities self username start_date end_date = Inr [a3, a2, a1]"
    by (simp add: get_all_activities_def sorted_reverse_def c13 c32 c12)
qed

theorem get_all_activities_sorted_witness:
  "one_kind (answered [fixed_source (Inr [activity_at (Aware 1 0), activity_at (Aware 3 0)]),
                       fixed_source (Inr [activity_at (Aware 2 0)])] ''octocat'' None None)
   \<and> datetime_lt (timestamp (activity_at (Aware 1 0))) (timestamp (activity_at (Aware 2 0)))
       = Inr True
   \<and> datetime_lt (timestamp (activity_at (Aware 2 0))) (timestamp (activity_at (Aware 3 0)))
       = Inr True
   \<and> get_all_activities
         \<lparr>sources = [fixed_source (Inr [activity_at (Aware 1 0), activity_at (Aware 3 0)]),
                     fixed_source (Inr [activity_at (Aware 2 0)])]\<rparr> ''octocat'' None None
       = Inr [activity_at (Aware 3 0), activity_at (Aware 2 0), activity_at (Aware 1 0)]"
  using get_all_activities_sorted
    [of "\<lparr>sources = [fixed_source (Inr [activity_at (Aware 1 0), activity_at (Aware 3 0)]),
                     fixed_source (Inr [activity_at (Aware 2 0)])]\<rparr>"
        "''octocat''" None None
        "fixed_source (Inr [activity_at (Aware 1 0), activity_at (Aware 3 0)])"
        "fixed_source (Inr [activity_at (Aware 2 0)])"
        "activity_at (Aware 1 0)" "activity_at (Aware 3 0)" "activity_at (Aware 2 0)"]
  by (simp add: fixed_source_def activity_at_def datetime_lt_def one_kind_def answered_def)

text \<open>
  Claim C5 as stated fails. One source raises and the other returns a naive and an aware
  timestamp: the exception of the source is caught, and the \<^verbatim>\<open>TypeError\<close> of the sort
  leaves \<^verbatim>\<open>get_all_activities\<close>.
\<close>

theorem get_all_activities_isolates_failure_counterexample:
  "source_get_activities (fixed_source (Inl RequestException)) ''octocat'' None None
     = Inl RequestException
   \<and> get_all_activities
        \<lparr>sources = [fixed_source (Inl RequestException),
                    fixed_source (Inr [activity_at (Naive 1), activity_at (Aware 2 0)])]\<rparr>
        ''octocat'' None None
      = Inl TypeError"
  by (simp add: get_all_activities_def sorted_reverse_def fixed_source_def activity_at_def
      datetime_lt_def)

text \<open>
  Claim C5, amended. When a registered source raises from \<^verbatim>\<open>get_activities\<close> and the
  timestamps of the activities of the other sources are all naive or all aware, whatever
  the sources before and after it are, \<^verbatim>\<open>get_all_activities\<close> does not raise and returns
  what the tracker without that source returns: exactly the activities of the sources that
  answered.
\<close>

theorem get_all_activities_isolates_failure:
  assumes "source_get_activities failing username start_date end_date = Inl e"
    and "one_kind (answered (pre @ post) username start_date end_date)"
  shows "\<exists>r. get_all_activities \<lparr>sources = pre @ failing # post\<rparr> username start_date end_date
              = Inr r
           \<and> get_all_activities \<lparr>sources = pre @ post\<rparr> username start_date end_date = Inr r
           \<and> mset r = mset (answered (pre @ post) username start_date end_date)"
proof -
  from assms(1)
  have "answered (pre @ failing # post) username start_date end_date
        = answered (pre @ post) username start_date end_date"
    by (simp add: answered_def)
  moreover from assms(2)
  have "get_all_activities \<lparr>sources = pre @ post\<rparr> username start_date end_date
        = Inr (rev (sort_key (\<lambda>a. instant (timestamp a))
                      (rev (answered (pre @ post) username start_date end_date))))"
    using get_all_activities_one_kind [of "\<lparr>sources = pre @ post\<rparr>"] by simp
  moreover from assms(2) calculation(1)
  have "get_all_activities \<lparr>sources = pre @ failing # post\<rparr> username start_date end_date
        = Inr (rev (sort_key (\<lambda>a. instant (timestamp a))
                      (rev (answered (pre @ post) username start_date end_date))))"
    using get_all_activities_one_kind [of "\<lparr>sources = pre @ failing # post\<rparr>"] by simp
  ultimately show ?thesis by simp
qed

theorem get_all_activities_isolates_failure_witness:
  "source_get_activities (fixed_source (Inl RequestException)) ''octocat'' None None
     = Inl RequestException
   \<and> one_kind (answered ([fixed_source (Inr [activity_at (Naive 1), activity_at (Naive 3)])] @ [])
                ''octocat'' None None)
   \<and> get_all_activities
         \<lparr>sources = [fixed_source (Inr [activity_at (Naive 1), activity_at (Naive 3)]),
                     fixed_source (Inl RequestException)]\<rparr> ''octocat'' None None
       = Inr [activity_at (Naive 3), activity_at (Naive 1)]"
proof -
  have raises: "source_get_activities (fixed_source (Inl RequestException)) ''octocat'' None None
     = Inl RequestException"
    by (simp add: fixed_source_def)
  have kind: "one_kind (answered ([fixed_source (Inr [activity_at (Naive 1), activity_at (Naive 3)])] @ [])
                ''octocat'' None None)"
    by (simp add: one_kind_def answered_def fixed_source_def activity_at_def)
  from get_all_activities_isolates_failure [OF raises kind]
  obtain r where
    "get_all_activities
         \<lparr>sources = [fixed_source (Inr [activity_at (Naive 1), activity_at (Naive 3)]),
                     fixed_source (Inl RequestException)]\<rparr> ''octocat'' None None = Inr r"
    and "get_all_activities
         \<lparr>sources = [fixed_source (Inr [activity_at (Naive 1), activity_at (Naive 3)])]\<rparr>
         ''octocat'' None None = Inr r"
    by auto
  moreover have "get_all_activities
         \<lparr>sources = [fixed_source (Inr [activity_at (Naive 1), activity_at (Naive 3)])]\<rparr>
         ''octocat'' None None
       = Inr [activity_at (Naive 3), activity_at (Naive 1)]"
    by (simp add: get_all_activities_def sorted_reverse_def fixed_source_def activity_at_def
        datetime_lt_def)
  ultimately show ?thesis using raises kind by simp
qed

subsection \<open>Comment fragments\<close>

text \<open>
  An issue comment event whose \<^verbatim>\<open>repo\<close>, \<^verbatim>\<open>payload\<close>, \<^verbatim>\<open>issue\<close> and
  \<^verbatim>\<open>comment\<close> are objects (or absent, where the source has a default) and whose body
  is a string (or absent).
\<close>

lemma issue_comment_fragment:
  assumes "get_or ev ''repo'' (JObj []) = JObj rp"
    and "get_or ev ''payload'' (JObj []) = JObj p"
    and "get_or p ''issue'' (JObj []) = JObj issue"
    and "get_or p ''comment'' (JObj []) = JObj c"
    and "get_or c ''body'' (JStr []) = JStr body"
  shows "\<exists>d. simplify_event_details (JStr ''IssueCommentEvent'') (JObj ev) = Inr d
           \<and> map_of d ''comment_fragment'' = Some (JStr (take 100 body @ ''...''))"
proof -
  from assms(1) have repo: "dict_get (JObj ev) ''repo'' (JObj []) = Inr (JObj rp)"
    by (simp add: get_or_def)
  from assms(2) have payload: "dict_get (JObj ev) ''payload'' (JObj []) = Inr (JObj p)"
    by (simp add: get_or_def)
  from assms(3) have issue: "dict_get (JObj p) ''issue'' (JObj []) = Inr (JObj issue)"
    by (simp add: get_or_def)
  from assms(4) have comment: "dict_get (JObj p) ''comment'' (JObj []) = Inr (JObj c)"
    by (simp add: get_or_def)
  from assms(5) have body: "dict_get (JObj c) ''body'' (JStr []) = Inr (JStr body)"
    by (simp add: get_or_def)
  have "simplify_issue_comment (get_or rp ''name'' (JStr ''unknown''))
          (''https://github.com/'' @ py_str (get_or rp ''name'' (JStr ''unknown''))) (JObj p)
        = Inr [(''action'', get_or p ''action'' (JStr ''unknown'')),
               (''issue_number'', get_or issue ''number'' (JStr ''unknown'')),
               (''repository'', get_or rp ''name'' (JStr ''unknown'')),
               (''repository_url'',
                  JStr (''https://github.com/'' @ py_str (get_or rp ''name'' (JStr ''unknown'')))),
               (''comment_fragment'', JStr (take 100 body @ ''...'')),
               (''url'', get_or c ''html_url'' JNull),
               (''issue_url'', get_or issue ''html_url'' JNull)]"
    unfolding simplify_issue_comment_def
    by (simp only: issue comment body and_then_Inr slice_to.simps add_str.simps)
       (simp add: get_or_def)
  then have "simplify_try (JStr ''IssueCommentEvent'') (JObj ev)
        = Inr [(''action'', get_or p ''action'' (JStr ''unknown'')),
               (''issue_number'', get_or issue ''number'' (JStr ''unknown'')),
               (''repository'', get_or rp ''name'' (JStr ''unknown'')),
               (''repository_url'',
                  JStr (''https://github.com/'' @ py_str (get_or rp ''name'' (JStr ''unknown'')))),
               (''comment_fragment'', JStr (take 100 body @ ''...'')),
               (''url'', get_or c ''html_url'' JNull),
               (''issue_url'', get_or issue ''html_url'' JNull)]"
    unfolding simplify_try_def
    by (simp only: repo payload and_then_Inr Let_def) (simp add: get_or_def)
  then show ?thesis by (simp add: simplify_event_details_def)
qed

text \<open>
  Claim C8 as stated fails. An issue comment event whose body has 150 characters and whose
  \<^verbatim>\<open>issue\<close> is \<^verbatim>\<open>null\<close> makes the extraction raise; the details are the
  fallback, which has no \<^verbatim>\<open>comment_fragment\<close>.
\<close>

theorem comment_fragment_of_150_counterexample:
  "simplify_event_details (JStr ''IssueCommentEvent'') long_comment_null_issue
     = Inr error_details
   \<and> map_of error_details ''comment_fragment'' = None"
  by (simp add: long_comment_null_issue_def simplify_event_details_def simplify_try_def
      simplify_issue_comment_def error_details_def)

text \<open>
  Claim C8, amended. For an issue comment event whose \<^verbatim>\<open>repo\<close> and \<^verbatim>\<open>issue\<close>
  are objects or absent, whose \<^verbatim>\<open>payload\<close> and \<^verbatim>\<open>comment\<close> are objects and whose
  comment body is a string of 150 characters, the \<^verbatim>\<open>comment_fragment\<close> of the
  simplified details is the first 100 characters of the body followed by \<^verbatim>\<open>...\<close>.
\<close>

theorem comment_fragment_of_150:
  assumes "get_or ev ''repo'' (JObj []) = JObj rp"
    and "get_or ev ''payload'' (JObj []) = JObj p"
    and "get_or p ''issue'' (JObj []) = JObj issue"
    and "get_or p ''comment'' (JObj []) = JObj c"
    and "get_or c ''body'' (JStr []) = JStr body"
    and "length body = 150"
  shows "\<exists>d. simplify_event_details (JStr ''IssueCommentEvent'') (JObj ev) = Inr d
           \<and> map_of d ''comment_fragment'' = Some (JStr (take 100 body @ ''...''))
           \<and> length (take 100 body) = 100"
  using issue_comment_fragment [OF assms(1-5)] assms(6) by simp

theorem comment_fragment_of_150_witness:
  "length (replicate 150 CHR ''a'') = 150
   \<and> (\<exists>d. simplify_event_details (JStr ''IssueCommentEvent'') long_comment = Inr d
        \<and> map_of d ''comment_fragment'' = Some (JStr (replicate 100 CHR ''a'' @ ''...'')))"
  using comment_fragment_of_150
    [of "[(''type'', JStr ''IssueCommentEvent''),
          (''repo'', JObj [(''name'', JStr ''octo/app'')]),
          (''payload'',
             JObj [(''action'', JStr ''created''),
                   (''issue'', JObj [(''number'', JInt 7)]),
                   (''comment'', JObj [(''body'', JStr (replicate 150 CHR ''a''))])])]"
        "[(''name'', JStr ''octo/app'')]"
        "[(''action'', JStr ''created''),
          (''issue'', JObj [(''number'', JInt 7)]),
          (''comment'', JObj [(''body'', JStr (replicate 150 CHR ''a''))])]"
        "[(''number'', JInt 7)]"
        "[(''body'', JStr (replicate 150 CHR ''a''))]"
        "replicate 150 CHR ''a''"]
  by (simp add: long_comment_def get_or_def)

text \<open>
  Claim C10 as stated fails. An issue comment event whose \<^verbatim>\<open>repo\<close> is
  \<^verbatim>\<open>null\<close> makes the extraction raise; the details are the fallback, and no ellipsis
  is appended to anything.
\<close>

theorem comment_fragment_always_has_ellipsis_counterexample:
  "simplify_event_details (JStr ''IssueCommentEvent'') short_comment_null_repo
     = Inr error_details
   \<and> map_of error_details ''comment_fragment'' = None"
  by (simp add: short_comment_null_repo_def simplify_event_details_def simplify_try_def
      error_details_def)

text \<open>
  Claim C10, amended. For an issue comment event whose \<^verbatim>\<open>repo\<close>,
  \<^verbatim>\<open>payload\<close>, \<^verbatim>\<open>issue\<close> and \<^verbatim>\<open>comment\<close> are objects or absent and whose
  body is a string or absent, the ellipsis is appended whatever the length of the body: the
  fragment is the first 100 characters followed by \<^verbatim>\<open>...\<close>, so a body of
  \<open>n \<le> 100\<close> characters (the empty default of a missing comment or body included) gives
  the whole body followed by \<^verbatim>\<open>...\<close>, of length \<open>n + 3\<close>, which is not the body.
\<close>

theorem comment_fragment_always_has_ellipsis:
  assumes "get_or ev ''repo'' (JObj []) = JObj rp"
    and "get_or ev ''payload'' (JObj []) = JObj p"
    and "get_or p ''issue'' (JObj []) = JObj issue"
    and "get_or p ''comment'' (JObj []) = JObj c"
    and "get_or c ''body'' (JStr []) = JStr body"
  shows "\<exists>d. simplify_event_details (JStr ''IssueCommentEvent'') (JObj ev) = Inr d
           \<and> map_of d ''comment_fragment'' = Some (JStr (take 100 body @ ''...''))
           \<and> (length body \<le> 100
                \<longrightarrow> map_of d ''comment_fragment'' = Some (JStr (body @ ''...''))
                    \<and> length (body @ ''...'') = length body + 3
                    \<and> map_of d ''comment_fragment'' \<noteq> Some (JStr body))"
  using issue_comment_fragment [OF assms] by auto

theorem comment_fragment_always_has_ellipsis_witness:
  "length ''Looks good'' \<le> 100
   \<and> (\<exists>d. simplify_event_details (JStr ''IssueCommentEvent'') short_comment = Inr d
        \<and> map_of d ''comment_fragment'' = Some (JStr ''Looks good...'')
        \<and> map_of d ''comment_fragment'' \<noteq> Some (JStr ''Looks good''))
   \<and> (\<exists>d. simplify_event_details (JStr ''IssueCommentEvent'') no_comment = Inr d
        \<and> map_of d ''comment_fragment'' = Some (JStr ''...''))"
proof -
  have short: "\<exists>d. simplify_event_details (JStr ''IssueCommentEvent'') short_comment = Inr d
        \<and> map_of d ''comment_fragment'' = Some (JStr ''Looks good...'')
        \<and> map_of d ''comment_fragment'' \<noteq> Some (JStr ''Looks good'')"
    using comment_fragment_always_has_ellipsis
      [of "[(''type'', JStr ''IssueCommentEvent''),
            (''repo'', JObj [(''name'', JStr ''octo/app'')]),
            (''payload'',
               JObj [(''action'', JStr ''created''),
                     (''issue'', JObj [(''number'', JInt 7)]),
                     (''comment'', JObj [(''body'', JStr ''Looks good'')])])]"
          "[(''name'', JStr ''octo/app'')]"
          "[(''action'', JStr ''created''),
            (''issue'', JObj [(''number'', JInt 7)]),
            (''comment'', JObj [(''body'', JStr ''Looks good'')])]"
          "[(''number'', JInt 7)]"
          "[(''body'', JStr ''Looks good'')]"
          "''Looks good''"]
    by (auto simp: short_comment_def get_or_def)
  have absent: "\<exists>d. simplify_event_details (JStr ''IssueCommentEvent'') no_comment = Inr d
        \<and> map_of d ''comment_fragment'' = Some (JStr ''...'')"
    using comment_fragment_always_has_ellipsis
      [of "[(''type'', JStr ''IssueCommentEvent''),
            (''repo'', JObj [(''name'', JStr ''octo/app'')]),
            (''payload'', JObj [(''action'', JStr ''created'')])]"
          "[(''name'', JStr ''octo/app'')]"
          "[(''action'', JStr ''created'')]"
          "[]" "[]" "[]"]
    by (auto simp: no_comment_def get_or_def)
  from short absent show ?thesis by simp
qed

subsection \<open>Push details\<close>

text \<open>The comprehension over the first three commits.\<close>

lemma commit_messages_first_lines:
  "map (\<lambda>c. dict_get c ''message'' (JStr [])) cs = map (\<lambda>m. Inr (JStr m)) ms
   \<Longrightarrow> map_result commit_message cs = Inr (map (\<lambda>m. JStr (first_line m)) ms)"
proof (induction cs arbitrary: ms)
  case Nil
  then show ?case by simp
next
  case (Cons c cs)
  then obtain m ms' where ms: "ms = m # ms'" by (cases ms) auto
  with Cons.prems have "dict_get c ''message'' (JStr []) = Inr (JStr m)"
    and "map (\<lambda>c. dict_get c ''message'' (JStr [])) cs = map (\<lambda>m. Inr (JStr m)) ms'"
    by simp_all
  with Cons.IH [of ms'] ms show ?case
    by (simp add: commit_message_def)
qed

text \<open>
  The details of a push event whose fields have the types the source expects: the
  \<^verbatim>\<open>ref\<close> as it was received, the number of commits, the first line of each of the
  first three commit messages at most, and the compare URL.
\<close>

lemma push_details_shape:
  assumes "dict_get event ''repo'' (JObj []) = Inr repo_obj"
    and "dict_get repo_obj ''name'' (JStr ''unknown'') = Inr repo"
    and "dict_get event ''payload'' (JObj []) = Inr payload"
    and "dict_get payload ''ref'' (JStr ''unknown'') = Inr (JStr ref)"
    and "dict_get payload ''commits'' (JList []) = Inr (JList commits)"
    and "map (\<lambda>c. dict_get c ''message'' (JStr [])) (take 3 commits)
         = map (\<lambda>m. Inr (JStr m)) msgs"
    and "dict_get payload ''before'' (JStr []) = Inr before_sha"
    and "dict_get payload ''head'' (JStr []) = Inr head_sha"
  shows "simplify_event_details (JStr ''PushEvent'') event
         = Inr [(''repository'', repo),
                (''repository_url'', JStr (''https://github.com/'' @ py_str repo)),
                (''ref'', JStr ref),
                (''commit_count'', JInt (int (length commits))),
                (''commit_messages'', JList (map (\<lambda>m. JStr (first_line m)) msgs)),
                (''compare_url'',
                   JStr (''https://github.com/'' @ py_str repo @ ''/compare/''
                         @ py_str before_sha @ ''...'' @ py_str head_sha))]"
  using assms
  by (simp add: simplify_event_details_def simplify_try_def simplify_push_def
      commit_messages_first_lines)

text \<open>
  Claim C2. For a push to \<^verbatim>\<open>refs/heads/main\<close> the branch name with the prefix
  stripped is \<^verbatim>\<open>main\<close>. The source computes it (\<^verbatim>\<open>branch\<close>, line 86) and does not
  store it: the details hold \<^verbatim>\<open>refs/heads/main\<close> under \<^verbatim>\<open>ref\<close>, and none of
  their values is \<^verbatim>\<open>main\<close>. The commit count, the first lines and the compare URL
  are there.
\<close>

theorem push_details_lack_branch:
  "simplify_event_details (JStr ''PushEvent'') push_main = Inr push_main_details
   \<and> replace ''refs/heads/'' [] ''refs/heads/main'' = ''main''
   \<and> JStr ''main'' \<notin> set (map snd push_main_details)"
  by (simp add: push_main_def push_main_details_def simplify_event_details_def simplify_try_def
      simplify_push_def commit_message_def first_line_def)

end
